theory Spec2Isabelle
  imports Complex_Main
begin

section \<open>Numbers and strings of the source language\<close>

text \<open>
  The source is TypeScript. Its numbers are modelled as real numbers: every measurement
  that enters the program (click positions, canvas bounds, page sizes) is a finite number,
  and arithmetic on them is exact here (rounding of IEEE doubles is not modelled).
  The one place where the source can leave the finite numbers is a division by a
  measured size of zero; there the result type is \<open>jsnum\<close>, which adds the two
  infinities and NaN with the rules of the language (the sign of zero is not modelled:
  a measured zero is \<open>+0\<close>).
\<close>

datatype jsnum = Fin real | PInf | NInf | NaN

fun js_div :: "real \<Rightarrow> real \<Rightarrow> jsnum" where
  "js_div a b =
     (if b \<noteq> 0 then Fin (a / b)
      else if 0 < a then PInf
      else if a < 0 then NInf
      else NaN)"

fun js_mul :: "real \<Rightarrow> jsnum \<Rightarrow> jsnum" where
  "js_mul c (Fin r) = Fin (c * r)"
| "js_mul c PInf = (if 0 < c then PInf else if c < 0 then NInf else NaN)"
| "js_mul c NInf = (if 0 < c then NInf else if c < 0 then PInf else NaN)"
| "js_mul c NaN = NaN"

fun js_sub :: "real \<Rightarrow> jsnum \<Rightarrow> jsnum" where
  "js_sub h (Fin r) = Fin (h - r)"
| "js_sub h PInf = NInf"
| "js_sub h NInf = PInf"
| "js_sub h NaN = NaN"

text \<open>\<open>Math.round\<close>: the nearest integer, a tie going up.\<close>

definition mathRound :: "real \<Rightarrow> int" where
  "mathRound v = \<lfloor>v + 1 / 2\<rfloor>"

text \<open>
  \<open>a || d\<close> for an optional number \<open>a\<close>: \<open>undefined\<close> and \<open>0\<close> are falsy
  and give \<open>d\<close>, every other number is truthy and is the result.
\<close>

definition js_or_else :: "real option \<Rightarrow> real \<Rightarrow> real" where
  "js_or_else a d = (case a of None \<Rightarrow> d | Some v \<Rightarrow> if v \<noteq> 0 then v else d)"

text \<open>The same for an optional string: \<open>undefined\<close> and the empty string are falsy.\<close>

definition falsy_string :: "string option \<Rightarrow> bool" where
  "falsy_string c = (case c of None \<Rightarrow> True | Some t \<Rightarrow> t = [])"

text \<open>
  Strings are lists of 8-bit code units. The white space of the language within that
  range: tab, line feed, vertical tab, form feed, carriage return, space and the
  no-break space.
\<close>

definition is_space :: "char \<Rightarrow> bool" where
  "is_space c = (c \<in> set [CHR 0x09, CHR 0x0A, CHR 0x0B, CHR 0x0C, CHR 0x0D, CHR 0x20, CHR 0xA0])"

definition trim :: "string \<Rightarrow> string" where
  "trim s = rev (dropWhile is_space (rev (dropWhile is_space s)))"

text \<open>\<open>s.replace(/\n/g, ' ')\<close>\<close>

definition replace_newlines :: "string \<Rightarrow> string" where
  "replace_newlines s = map (\<lambda>c. if c = CHR 0x0A then CHR 0x20 else c) s"

text \<open>\<open>s.replace(/\s+/g, ' ')\<close>: every maximal run of white space becomes one space.\<close>

fun collapse_from :: "bool \<Rightarrow> string \<Rightarrow> string" where
  "collapse_from in_run [] = []"
| "collapse_from in_run (c # cs) =
     (if is_space c
      then (if in_run then collapse_from True cs else CHR 0x20 # collapse_from True cs)
      else c # collapse_from False cs)"

definition collapse_spaces :: "string \<Rightarrow> string" where
  "collapse_spaces s = collapse_from False s"

definition single_line :: "string \<Rightarrow> string" where
  "single_line s = trim (collapse_spaces (replace_newlines s))"

section \<open>Dynamic font size\<close>

datatype field_type = FSignature | FInitials | FName | FDate | FText | FCompany

text \<open>
  \<open>calculateDynamicFontSize(width, height, type, contentLength = 10)\<close>. The first
  assignment to \<open>baseFontSize\<close> in the source is overwritten by every branch of the
  \<open>switch\<close>, so the base size is the branch's value. With \<open>contentLength = 0\<close> the
  width test can only succeed for \<open>width < 16\<close>; the source then divides a negative
  number by zero, which is \<open>-Infinity\<close>, and \<open>Math.max(8, -Infinity)\<close> is 8.
\<close>

definition baseFontSize :: "real \<Rightarrow> field_type \<Rightarrow> real" where
  "baseFontSize h t =
     (case t of
        FSignature \<Rightarrow> max 12 (min (h * 0.7) 36)
      | FInitials \<Rightarrow> max 10 (min (h * 0.65) 28)
      | FName \<Rightarrow> max 8 (min (h * 0.6) 24)
      | _ \<Rightarrow> max 8 (min (h * 0.55) 20))"

definition widthFit :: "real \<Rightarrow> nat \<Rightarrow> real \<Rightarrow> real" where
  "widthFit w n b =
     (let estimatedTextWidth = real n * (b * 0.6)
      in if estimatedTextWidth > w - 16
         then (if n = 0 then 8 else max 8 ((w - 16) / (real n * 0.6)))
         else b)"

definition calculateDynamicFontSize :: "real \<Rightarrow> real \<Rightarrow> field_type \<Rightarrow> nat \<Rightarrow> int" where
  "calculateDynamicFontSize w h t n = mathRound (widthFit w n (baseFontSize h t))"

section \<open>The page surface and the coordinate transform\<close>

text \<open>
  \<open>getBoundingClientRect()\<close> of the canvas or of the page element, and
  \<open>page.getSize()\<close> of the PDF page.
\<close>

record bounds =
  b_left :: real
  b_top :: real
  b_width :: real
  b_height :: real

record page_size =
  p_width :: real
  p_height :: real

text \<open>
  What the handlers can measure when they run: \<open>getPdfCanvasBounds()\<close> (\<open>None\<close> when
  the page element or its canvas is missing), the rectangle of the page element, and
  \<open>getPdfPageDimensions()\<close> (\<open>None\<close> when the PDF is not loaded or the current page
  is out of range).
\<close>

record view =
  canvasBounds :: "bounds option"
  pageRect :: "bounds option"
  pdfDimensions :: "page_size option"
  currentPage :: int

record conversion =
  absoluteX :: jsnum
  absoluteY :: jsnum
  c_canvasWidth :: real
  c_canvasHeight :: real
  c_pdfWidth :: real
  c_pdfHeight :: real

definition convertToAbsoluteCoordinates :: "view \<Rightarrow> real \<Rightarrow> real \<Rightarrow> conversion" where
  "convertToAbsoluteCoordinates v canvasX canvasY =
     (case canvasBounds v of
        None \<Rightarrow> \<lparr>absoluteX = Fin canvasX, absoluteY = Fin canvasY, c_canvasWidth = 0,
                 c_canvasHeight = 0, c_pdfWidth = 0, c_pdfHeight = 0\<rparr>
      | Some cb \<Rightarrow>
         (case pdfDimensions v of
            None \<Rightarrow> \<lparr>absoluteX = Fin canvasX, absoluteY = Fin canvasY, c_canvasWidth = 0,
                     c_canvasHeight = 0, c_pdfWidth = 0, c_pdfHeight = 0\<rparr>
          | Some pd \<Rightarrow>
             (let scaleX = js_div (p_width pd) (b_width cb);
                  scaleY = js_div (p_height pd) (b_height cb)
              in \<lparr>absoluteX = js_mul canvasX scaleX,
                  absoluteY = js_sub (p_height pd) (js_mul canvasY scaleY),
                  c_canvasWidth = b_width cb, c_canvasHeight = b_height cb,
                  c_pdfWidth = p_width pd, c_pdfHeight = p_height pd\<rparr>)))"

section \<open>Fields and the edit session\<close>

record field =
  f_id :: string
  f_type :: field_type
  f_x :: real
  f_y :: real
  f_page :: int
  f_width :: real
  f_height :: real
  f_content :: "string option"
  f_font :: "string option"
  f_canvasWidth :: "real option"
  f_canvasHeight :: "real option"
  f_pdfWidth :: "real option"
  f_pdfHeight :: "real option"
  f_fontSize :: "int option"

record session =
  signatureFields :: "field list"
  placementMode :: "field_type option"
  doc_signed :: bool
  showSignatureModal :: bool
  selectedField :: "string option"
  selectedFieldForEdit :: "string option"

definition initial_session :: session where
  "initial_session =
     \<lparr>signatureFields = [], placementMode = None, doc_signed = False,
      showSignatureModal = False, selectedField = None, selectedFieldForEdit = None\<rparr>"

definition defaultSize :: "field_type \<Rightarrow> real \<times> real" where
  "defaultSize mode =
     (if mode = FSignature then (180, 50)
      else if mode = FInitials then (80, 35)
      else if mode = FName then (150, 30)
      else (120, 30))"

text \<open>
  \<open>handlePdfClick\<close>: \<open>now\<close> is \<open>Date.now().toString()\<close> and \<open>today\<close> is
  \<open>new Date().toLocaleDateString()\<close> at the time of the click.
\<close>

definition handlePdfClick :: "view \<Rightarrow> real \<Rightarrow> real \<Rightarrow> string \<Rightarrow> string \<Rightarrow> session \<Rightarrow> session" where
  "handlePdfClick v clientX clientY now today s =
     (case placementMode s of
        None \<Rightarrow> s
      | Some mode \<Rightarrow>
         if doc_signed s then s
         else
          (case canvasBounds v of
           None \<Rightarrow> s
         | Some cb \<Rightarrow>
            (case pageRect v of
               None \<Rightarrow> s
             | Some pr \<Rightarrow>
                (let relativeX = clientX - b_left pr;
                     relativeY = clientY - b_top pr;
                     canvasOffsetX = b_left cb - b_left pr;
                     canvasOffsetY = b_top cb - b_top pr;
                     canvasX = relativeX - canvasOffsetX;
                     canvasY = relativeY - canvasOffsetY
                 in if canvasX < 0 \<or> canvasY < 0 \<or> canvasX > b_width cb \<or> canvasY > b_height cb
                    then s
                    else
                      (let fieldWidth = fst (defaultSize mode);
                           fieldHeight = snd (defaultSize mode);
                           padding = 10;
                           adjustedX = min canvasX (b_width cb - fieldWidth - padding);
                           adjustedY = min canvasY (b_height cb - fieldHeight - padding);
                           conv = convertToAbsoluteCoordinates v adjustedX adjustedY;
                           initialFontSize = calculateDynamicFontSize fieldWidth fieldHeight mode 10;
                           newField =
                             \<lparr>f_id = now, f_type = mode,
                              f_x = max 0 adjustedX, f_y = max 0 adjustedY,
                              f_page = currentPage v,
                              f_width = fieldWidth, f_height = fieldHeight,
                              f_content = None, f_font = None,
                              f_canvasWidth = Some (c_canvasWidth conv),
                              f_canvasHeight = Some (c_canvasHeight conv),
                              f_pdfWidth = Some (c_pdfWidth conv),
                              f_pdfHeight = Some (c_pdfHeight conv),
                              f_fontSize = Some initialFontSize\<rparr>
                       in if mode = FSignature \<or> mode = FInitials
                          then s\<lparr>showSignatureModal := True, selectedField := Some now,
                                 signatureFields := signatureFields s @ [newField],
                                 placementMode := None\<rparr>
                          else if mode = FDate
                          then s\<lparr>signatureFields :=
                                   signatureFields s @ [newField\<lparr>f_content := Some today\<rparr>],
                                 placementMode := None\<rparr>
                          else s\<lparr>signatureFields := signatureFields s @ [newField],
                                 placementMode := None\<rparr>)))))"

definition handleSignatureConfirm :: "string \<Rightarrow> string \<Rightarrow> session \<Rightarrow> session" where
  "handleSignatureConfirm name font s =
     (case selectedField s of
        None \<Rightarrow> s
      | Some sel \<Rightarrow>
         if sel = [] then s
         else
          (let singleLineName = single_line name
           in s\<lparr>signatureFields :=
                   map (\<lambda>fld. if f_id fld = sel
                           then fld\<lparr>f_content := Some singleLineName, f_font := Some font,
                                    f_fontSize := Some (calculateDynamicFontSize (f_width fld)
                                      (f_height fld) (f_type fld) (length singleLineName))\<rparr>
                           else fld) (signatureFields s),
                 selectedField := None, showSignatureModal := False\<rparr>))"

definition removeField :: "string \<Rightarrow> session \<Rightarrow> session" where
  "removeField fieldId s =
     s\<lparr>signatureFields := filter (\<lambda>fld. f_id fld \<noteq> fieldId) (signatureFields s),
       selectedFieldForEdit :=
         (if selectedFieldForEdit s = Some fieldId then None else selectedFieldForEdit s)\<rparr>"

definition updateFieldContent :: "string \<Rightarrow> string \<Rightarrow> session \<Rightarrow> session" where
  "updateFieldContent fieldId content s =
     (let singleLineContent = single_line content
      in s\<lparr>signatureFields :=
              map (\<lambda>fld. if f_id fld = fieldId
                      then fld\<lparr>f_content := Some singleLineContent,
                               f_fontSize := Some (calculateDynamicFontSize (f_width fld)
                                 (f_height fld) (f_type fld) (length singleLineContent))\<rparr>
                      else fld) (signatureFields s)\<rparr>)"

definition handleFieldDrag :: "view \<Rightarrow> string \<Rightarrow> real \<Rightarrow> real \<Rightarrow> session \<Rightarrow> session" where
  "handleFieldDrag v fieldId data_x data_y s =
     (case canvasBounds v of
        None \<Rightarrow> s
      | Some cb \<Rightarrow>
         (case find (\<lambda>fld. f_id fld = fieldId) (signatureFields s) of
            None \<Rightarrow> s
          | Some fld0 \<Rightarrow>
             (let padding = 5;
                  boundedX = max 0 (min data_x (b_width cb - f_width fld0 - padding));
                  boundedY = max 0 (min data_y (b_height cb - f_height fld0 - padding))
              in s\<lparr>signatureFields :=
                      map (\<lambda>fld. if f_id fld = fieldId
                              then fld\<lparr>f_x := boundedX, f_y := boundedY,
                                       f_canvasWidth := Some (b_width cb),
                                       f_canvasHeight := Some (b_height cb)\<rparr>
                              else fld) (signatureFields s)\<rparr>)))"

text \<open>\<open>field.content?.length || 10\<close>\<close>

definition contentLengthOr10 :: "string option \<Rightarrow> nat" where
  "contentLengthOr10 c = (case c of None \<Rightarrow> 10 | Some t \<Rightarrow> if length t = 0 then 10 else length t)"

definition resizeField :: "bounds \<Rightarrow> real \<Rightarrow> real \<Rightarrow> field \<Rightarrow> field" where
  "resizeField cb newWidth newHeight fld =
     (let maxWidth = b_width cb - f_x fld - 10;
          maxHeight = b_height cb - f_y fld - 10;
          finalWidth = min (max 60 newWidth) maxWidth;
          finalHeight = min (max 20 newHeight) maxHeight;
          newFontSize = calculateDynamicFontSize finalWidth finalHeight (f_type fld)
                          (contentLengthOr10 (f_content fld))
      in fld\<lparr>f_width := finalWidth, f_height := finalHeight, f_fontSize := Some newFontSize\<rparr>)"

definition handleFieldResize :: "view \<Rightarrow> string \<Rightarrow> real \<Rightarrow> real \<Rightarrow> session \<Rightarrow> session" where
  "handleFieldResize v fieldId newWidth newHeight s =
     (case canvasBounds v of
        None \<Rightarrow> s
      | Some cb \<Rightarrow>
         s\<lparr>signatureFields :=
             map (\<lambda>fld. if f_id fld = fieldId then resizeField cb newWidth newHeight fld else fld)
               (signatureFields s)\<rparr>)"

section \<open>Finalization\<close>

text \<open>One entry of the \<open>signatures\<close> array sent to the rendering backend.\<close>

record annotation =
  a_page :: int
  a_x :: real
  a_y :: real
  a_width :: real
  a_height :: real
  a_type :: field_type
  a_content :: "string option"
  a_font :: "string option"
  a_fontSize :: "int option"

text \<open>
  What \<open>finalizeDocument\<close> does to the outside, in order: the toasts, the switches of
  the \<open>finalizing\<close> flag, the request to the backend, the records saved afterwards and
  the navigation.
\<close>

datatype effect =
    ToastError string
  | ToastSuccess string
  | SetFinalizing bool
  | BackendRequest "annotation list"
  | SaveSignatureRecords
  | Navigate string

text \<open>
  The four dimensions \<open>finalizeDocument\<close> uses for a field:
  \<open>field.canvasWidth || getPdfCanvasBounds()?.width || 595\<close> and its three siblings.
\<close>

definition truthy :: "real option \<Rightarrow> bool" where
  "truthy a = (case a of None \<Rightarrow> False | Some v \<Rightarrow> v \<noteq> 0)"

definition canvasWidthOf :: "view \<Rightarrow> field \<Rightarrow> real" where
  "canvasWidthOf v fld =
     js_or_else (f_canvasWidth fld) (js_or_else (map_option b_width (canvasBounds v)) 595)"

definition canvasHeightOf :: "view \<Rightarrow> field \<Rightarrow> real" where
  "canvasHeightOf v fld =
     js_or_else (f_canvasHeight fld) (js_or_else (map_option b_height (canvasBounds v)) 842)"

definition pdfWidthOf :: "view \<Rightarrow> field \<Rightarrow> real" where
  "pdfWidthOf v fld =
     js_or_else (f_pdfWidth fld) (js_or_else (map_option p_width (pdfDimensions v)) 595)"

definition pdfHeightOf :: "view \<Rightarrow> field \<Rightarrow> real" where
  "pdfHeightOf v fld =
     js_or_else (f_pdfHeight fld) (js_or_else (map_option p_height (pdfDimensions v)) 842)"

text \<open>The body of \<open>signatureFields.map(field => ...)\<close> in \<open>finalizeDocument\<close>.\<close>

definition finalizeField :: "view \<Rightarrow> field \<Rightarrow> annotation" where
  "finalizeField v fld =
     (let canvasWidth = canvasWidthOf v fld;
          canvasHeight = canvasHeightOf v fld;
          pdfWidth = pdfWidthOf v fld;
          pdfHeight = pdfHeightOf v fld;
          scaleX = pdfWidth / canvasWidth;
          scaleY = pdfHeight / canvasHeight;
          absX = f_x fld * scaleX;
          absY = pdfHeight - (f_y fld * scaleY)
      in \<lparr>a_page = f_page fld, a_x = absX, a_y = absY,
          a_width = f_width fld, a_height = f_height fld, a_type = f_type fld,
          a_content = f_content fld, a_font = f_font fld, a_fontSize = f_fontSize fld\<rparr>)"

text \<open>\<open>!field.content || field.content.trim() === ''\<close>\<close>

definition incomplete :: "field \<Rightarrow> bool" where
  "incomplete fld = (case f_content fld of None \<Rightarrow> True | Some t \<Rightarrow> t = [] \<or> trim t = [])"

text \<open>
  \<open>finalizeDocument\<close>: \<open>sessionOk\<close> says whether an authenticated session is found,
  \<open>backendOk\<close> whether the request to the backend comes back with a success status and
  a readable body. The function never changes the fields.
\<close>

definition finalizeDocument :: "view \<Rightarrow> bool \<Rightarrow> bool \<Rightarrow> session \<Rightarrow> session \<times> effect list" where
  "finalizeDocument v sessionOk backendOk s =
     (if length (signatureFields s) = 0
      then (s, [ToastError ''Please add at least one signature before finalizing''])
      else if length (filter incomplete (signatureFields s)) > 0
      then (s, [ToastError ''Please complete all signature fields''])
      else if \<not> sessionOk
      then (s, [SetFinalizing True, ToastError ''Failed to finalize document'',
                SetFinalizing False])
      else
        (let signatures = map (finalizeField v) (signatureFields s)
         in if \<not> backendOk
            then (s, [SetFinalizing True, BackendRequest signatures,
                      ToastError ''Failed to finalize document'', SetFinalizing False])
            else (s, [SetFinalizing True, BackendRequest signatures, SaveSignatureRecords,
                      ToastSuccess ''Document signed with 100% positioning accuracy!'',
                      Navigate ''/dashboard'', SetFinalizing False])))"

text \<open>The requests an effect list sends to the backend.\<close>

fun requests :: "effect list \<Rightarrow> annotation list list" where
  "requests [] = []"
| "requests (BackendRequest sigs # es) = sigs # requests es"
| "requests (e # es) = requests es"

section \<open>Sequences of edits\<close>

datatype edit =
    Place field_type real real string string
  | Move string real real
  | Resize string real real

text \<open>
  A placement is the choice of a tool (\<open>setPlacementMode\<close>) followed by a click on the
  page; a move is the end of a drag; a resize is one mouse move on the resize handle.
\<close>

fun apply_edit :: "view \<Rightarrow> session \<Rightarrow> edit \<Rightarrow> session" where
  "apply_edit v s (Place mode clientX clientY now today) =
     handlePdfClick v clientX clientY now today (s\<lparr>placementMode := Some mode\<rparr>)"
| "apply_edit v s (Move fieldId data_x data_y) = handleFieldDrag v fieldId data_x data_y s"
| "apply_edit v s (Resize fieldId newWidth newHeight) =
     handleFieldResize v fieldId newWidth newHeight s"

definition run_edits :: "view \<Rightarrow> session \<Rightarrow> edit list \<Rightarrow> session" where
  "run_edits v s es = foldl (apply_edit v) s es"

text \<open>The containment property of one field in a canvas of the given size.\<close>

definition contained :: "bounds \<Rightarrow> field \<Rightarrow> bool" where
  "contained cb fld =
     (0 \<le> f_x fld \<and> 0 \<le> f_y fld \<and>
      f_x fld + f_width fld \<le> b_width cb \<and> f_y fld + f_height fld \<le> b_height cb)"

section \<open>The rendering backend\<close>

datatype std_font =
  TimesRomanItalic | HelveticaBold | HelveticaOblique | TimesRomanBold | CourierBold | Helvetica

definition getFontMapping :: "string \<Rightarrow> std_font" where
  "getFontMapping fontValue =
     (if fontValue = ''times-roman-italic'' then TimesRomanItalic
      else if fontValue = ''helvetica-bold'' then HelveticaBold
      else if fontValue = ''helvetica-oblique'' then HelveticaOblique
      else if fontValue = ''times-roman-bold'' then TimesRomanBold
      else if fontValue = ''courier-bold'' then CourierBold
      else if fontValue = ''helvetica'' then Helvetica
      else TimesRomanItalic)"

text \<open>
  The PDF library is outside the repository. What the backend needs of it is taken as a
  parameter: whether a font can be embedded, the width of a text at a size (\<open>None\<close> when
  the library throws) and whether drawing a text in a font succeeds.
\<close>

record pdflib =
  embedFont_ok :: "std_font \<Rightarrow> bool"
  widthOfTextAtSize :: "std_font \<Rightarrow> string \<Rightarrow> real \<Rightarrow> real option"
  drawText_ok :: "std_font \<Rightarrow> string \<Rightarrow> bool"

record draw_op =
  d_page :: int
  d_text :: string
  d_x :: real
  d_y :: real
  d_size :: real
  d_font :: std_font

text \<open>The loaded document: the size of each page and the texts drawn so far.\<close>

record pdf_doc =
  pages :: "page_size list"
  drawn :: "draw_op list"

text \<open>\<open>signature.fontSize || 16\<close> and \<open>signature.font || 'times-roman-italic'\<close>\<close>

definition fontSizeOr16 :: "int option \<Rightarrow> real" where
  "fontSizeOr16 fs = (case fs of None \<Rightarrow> 16 | Some n \<Rightarrow> if n = 0 then 16 else real_of_int n)"

definition fontOrDefault :: "string option \<Rightarrow> string" where
  "fontOrDefault f = (case f of None \<Rightarrow> ''times-roman-italic'' | Some t \<Rightarrow>
                        if t = [] then ''times-roman-italic'' else t)"

text \<open>The test at the head of the loop body: the signature is skipped.\<close>

definition skipped :: "pdf_doc \<Rightarrow> annotation \<Rightarrow> bool" where
  "skipped doc sg =
     (falsy_string (a_content sg) \<or> a_page sg < 1 \<or> a_page sg > int (length (pages doc)))"

text \<open>
  The \<open>catch\<close> branch of the loop body, for a signature that passed the test: a draw in
  Times Roman Italic; when that throws too, the error is logged and nothing is drawn.
\<close>

definition fallbackDraw :: "pdflib \<Rightarrow> pdf_doc \<Rightarrow> annotation \<Rightarrow> string \<Rightarrow> pdf_doc" where
  "fallbackDraw lib doc sg content =
     (let pg = pages doc ! nat (a_page sg - 1);
          pageWidth = p_width pg;
          pageHeight = p_height pg;
          singleLineContent = single_line content;
          fallbackFontSize = fontSizeOr16 (a_fontSize sg)
      in if embedFont_ok lib TimesRomanItalic \<and> drawText_ok lib TimesRomanItalic singleLineContent
         then doc\<lparr>drawn := drawn doc @
                [\<lparr>d_page = a_page sg, d_text = singleLineContent,
                  d_x = max 15 (min (a_x sg) (pageWidth - 150)),
                  d_y = max 20 (min (a_y sg) (pageHeight - 30)),
                  d_size = fallbackFontSize, d_font = TimesRomanItalic\<rparr>]\<rparr>
         else doc)"

text \<open>The loop body for one signature.\<close>

definition processSignature :: "pdflib \<Rightarrow> pdf_doc \<Rightarrow> annotation \<Rightarrow> pdf_doc" where
  "processSignature lib doc sg =
     (if skipped doc sg then doc
      else
        (case a_content sg of
           None \<Rightarrow> doc
         | Some content \<Rightarrow>
            (let pg = pages doc ! nat (a_page sg - 1);
                 pageWidth = p_width pg;
                 pageHeight = p_height pg;
                 finalX = max 10 (min (a_x sg) (pageWidth - 50));
                 finalY = max 15 (min (a_y sg) (pageHeight - 15));
                 pdfFont = getFontMapping (fontOrDefault (a_font sg));
                 fontSize = fontSizeOr16 (a_fontSize sg)
             in if \<not> embedFont_ok lib pdfFont then fallbackDraw lib doc sg content
                else
                  (let singleLineContent = single_line content
                   in case widthOfTextAtSize lib pdfFont singleLineContent fontSize of
                        None \<Rightarrow> fallbackDraw lib doc sg content
                      | Some textWidth \<Rightarrow>
                         (let adjustedX = min finalX (pageWidth - textWidth - 10)
                          in if drawText_ok lib pdfFont singleLineContent
                             then doc\<lparr>drawn := drawn doc @
                                    [\<lparr>d_page = a_page sg, d_text = singleLineContent,
                                      d_x = adjustedX, d_y = finalY,
                                      d_size = fontSize, d_font = pdfFont\<rparr>]\<rparr>
                             else fallbackDraw lib doc sg content)))))"

text \<open>\<open>for (const signature of signatures) { ... }\<close>\<close>

fun processSignatures :: "pdflib \<Rightarrow> pdf_doc \<Rightarrow> annotation list \<Rightarrow> pdf_doc" where
  "processSignatures lib doc [] = doc"
| "processSignatures lib doc (sg # sgs) = processSignatures lib (processSignature lib doc sg) sgs"

text \<open>
  The request as the handler sees it: the method, what the lookups of the user, the
  document and the file return, whether the file loads as a PDF and with which pages,
  and whether saving and uploading the result succeed.
\<close>

record request =
  is_options :: bool
  user_found :: bool
  document_found :: bool
  download_ok :: bool
  loaded :: "page_size list option"
  save_ok :: bool
  upload_ok :: bool
  signatures :: "annotation list"

datatype body = PlainText string | SuccessJson | ErrorJson

record response =
  status :: nat
  payload :: body

definition serve :: "pdflib \<Rightarrow> request \<Rightarrow> response \<times> draw_op list" where
  "serve lib req =
     (if is_options req then (\<lparr>status = 200, payload = PlainText ''ok''\<rparr>, [])
      else if \<not> user_found req then (\<lparr>status = 401, payload = PlainText ''Unauthorized''\<rparr>, [])
      else if \<not> document_found req
      then (\<lparr>status = 404, payload = PlainText ''Document not found''\<rparr>, [])
      else if \<not> download_ok req
      then (\<lparr>status = 500, payload = PlainText ''Error downloading PDF''\<rparr>, [])
      else
        (case loaded req of
           None \<Rightarrow> (\<lparr>status = 500, payload = ErrorJson\<rparr>, [])
         | Some pgs \<Rightarrow>
            (let doc = processSignatures lib \<lparr>pages = pgs, drawn = []\<rparr> (signatures req)
             in if \<not> save_ok req then (\<lparr>status = 500, payload = ErrorJson\<rparr>, [])
                else if \<not> upload_ok req
                then (\<lparr>status = 500,
                       payload = PlainText ''Error uploading ABSOLUTE PRECISION signed PDF''\<rparr>, [])
                else (\<lparr>status = 200, payload = SuccessJson\<rparr>, drawn doc))))"

section \<open>Notions used in the statements\<close>

text \<open>
  A page of native size \<open>nw \<times> nh\<close> rendered at \<open>w \<times> h\<close> pixels, with the canvas at
  the origin of the page element; \<open>unloaded\<close> is the same surface before the PDF
  document is loaded.
\<close>

definition viewport :: "real \<Rightarrow> real \<Rightarrow> real \<Rightarrow> real \<Rightarrow> view" where
  "viewport w h nw nh =
     \<lparr>canvasBounds = Some \<lparr>b_left = 0, b_top = 0, b_width = w, b_height = h\<rparr>,
      pageRect = Some \<lparr>b_left = 0, b_top = 0, b_width = w, b_height = h\<rparr>,
      pdfDimensions = Some \<lparr>p_width = nw, p_height = nh\<rparr>,
      currentPage = 1\<rparr>"

definition unloaded :: "real \<Rightarrow> real \<Rightarrow> view" where
  "unloaded w h =
     \<lparr>canvasBounds = Some \<lparr>b_left = 0, b_top = 0, b_width = w, b_height = h\<rparr>,
      pageRect = Some \<lparr>b_left = 0, b_top = 0, b_width = w, b_height = h\<rparr>,
      pdfDimensions = None,
      currentPage = 1\<rparr>"




text \<open>
  The first attempt of the loop body throws: the font cannot be embedded, the text
  cannot be measured, or it cannot be drawn.
\<close>

definition primaryThrows :: "pdflib \<Rightarrow> annotation \<Rightarrow> string \<Rightarrow> bool" where
  "primaryThrows lib sg content =
     (let pdfFont = getFontMapping (fontOrDefault (a_font sg));
          singleLineContent = single_line content
      in \<not> embedFont_ok lib pdfFont \<or>
         widthOfTextAtSize lib pdfFont singleLineContent (fontSizeOr16 (a_fontSize sg)) = None \<or>
         \<not> drawText_ok lib pdfFont singleLineContent)"

text \<open>
  A library that cannot embed Helvetica Bold, a request with one page and four
  signatures: one on a page that does not exist, one without content, one in Helvetica
  Bold and one in Helvetica.
\<close>

definition example_lib :: pdflib where
  "example_lib =
     \<lparr>embedFont_ok = (\<lambda>f. f \<noteq> HelveticaBold),
      widthOfTextAtSize = (\<lambda>f t sz. Some (sz * real (length t) / 2)),
      drawText_ok = (\<lambda>f t. True)\<rparr>"

definition example_signature :: "int \<Rightarrow> string \<Rightarrow> string \<Rightarrow> annotation" where
  "example_signature pg content font =
     \<lparr>a_page = pg, a_x = 100, a_y = 700, a_width = 150, a_height = 30, a_type = FName,
      a_content = Some content, a_font = Some font, a_fontSize = Some 18\<rparr>"

definition example_request :: request where
  "example_request =
     \<lparr>is_options = False, user_found = True, document_found = True, download_ok = True,
      loaded = Some [\<lparr>p_width = 595, p_height = 842\<rparr>], save_ok = True, upload_ok = True,
      signatures =
        [example_signature 5 ''Ann'' ''helvetica'',
         example_signature 1 [] ''helvetica'',
         example_signature 1 ''Bob'' ''helvetica-bold'',
         example_signature 1 ''Cy'' ''helvetica'']\<rparr>"

section \<open>Unfolding the handlers on concrete inputs\<close>

lemmas handler_defs = run_edits_def initial_session_def viewport_def unloaded_def
  handlePdfClick_def handleFieldDrag_def handleFieldResize_def resizeField_def
  convertToAbsoluteCoordinates_def defaultSize_def Let_def contentLengthOr10_def
  updateFieldContent_def

lemmas font_defs = calculateDynamicFontSize_def widthFit_def baseFontSize_def mathRound_def

lemmas finalize_defs = finalizeDocument_def finalizeField_def incomplete_def canvasWidthOf_def
  canvasHeightOf_def pdfWidthOf_def pdfHeightOf_def js_or_else_def

lemmas backend_defs = serve_def processSignature_def fallbackDraw_def skipped_def
  falsy_string_def getFontMapping_def fontOrDefault_def fontSizeOr16_def example_lib_def
  example_request_def example_signature_def Let_def

lemmas string_defs = single_line_def trim_def collapse_spaces_def replace_newlines_def
  is_space_def

section \<open>Font size: monotone in the height\<close>






section \<open>The transform: scale invariance\<close>



section \<open>Containment of the fields\<close>













text \<open>
  The ids matter: \<open>handleFieldDrag\<close> bounds the new position by the size of the first
  field with the id and moves every field with the id. Two placements with the same id
  (the same millisecond) break containment in any viewport.
\<close>

lemma containment_needs_distinct_ids:
  "map (contained \<lparr>b_left = 0, b_top = 0, b_width = 600, b_height = 800\<rparr>)
     (signatureFields (run_edits (viewport 600 800 595 842) initial_session
        [Place FInitials 0 0 ''1'' ''d'', Place FSignature 0 0 ''1'' ''d'',
         Move ''1'' 1000 0])) = [True, False]"
  by (simp add: handler_defs font_defs contained_def)



section \<open>The minimum size of a resized field\<close>





section \<open>Finalization: the emitted annotations\<close>

lemma requests_finalizeDocument:
  assumes "sigs \<in> set (requests (snd (finalizeDocument v sessionOk backendOk s)))"
  shows "sigs = map (finalizeField v) (signatureFields s) \<and>
         filter incomplete (signatureFields s) = []"
  using assms by (auto simp add: finalizeDocument_def Let_def split: if_splits)

text \<open>
  Claim C1, as stated: a field finalized with a stored snapshot whose rendered width and
  height are nonzero is emitted at \<open>x = field.x * (nativeWidth / renderedWidth)\<close> and
  \<open>y = nativeHeight - field.y * (nativeHeight / renderedHeight)\<close>. It fails for a
  snapshot whose native size is stored as zero: a name field placed at \<open>(100, 200)\<close>
  before the PDF dimensions are available stores zeros, a drag then stores the rendered
  size \<open>600 \<times> 800\<close>, and finalization replaces the zero native size by the live one:
  it emits \<open>x = 595 / 6\<close> and \<open>y = 631.5\<close>, where the stated formula gives \<open>0\<close>
  and \<open>0\<close>.
\<close>

theorem finalize_zero_native_counterexample:
  "signatureFields (updateFieldContent ''1'' ''Jane Doe''
      (run_edits (unloaded 600 800) initial_session
         [Place FName 100 200 ''1'' ''d'', Move ''1'' 100 200]))
   = [\<lparr>f_id = ''1'', f_type = FName, f_x = 100, f_y = 200, f_page = 1,
       f_width = 150, f_height = 30, f_content = Some ''Jane Doe'', f_font = None,
       f_canvasWidth = Some 600, f_canvasHeight = Some 800,
       f_pdfWidth = Some 0, f_pdfHeight = Some 0, f_fontSize = Some 18\<rparr>] \<and>
   requests (snd (finalizeDocument (viewport 600 800 595 842) True True
      (updateFieldContent ''1'' ''Jane Doe''
        (run_edits (unloaded 600 800) initial_session
           [Place FName 100 200 ''1'' ''d'', Move ''1'' 100 200]))))
   = [[\<lparr>a_page = 1, a_x = 595 / 6, a_y = 631.5, a_width = 150, a_height = 30,
        a_type = FName, a_content = Some ''Jane Doe'', a_font = None,
        a_fontSize = Some 18\<rparr>]] \<and>
   (595 / 6 :: real) \<noteq> 100 * (0 / 600) \<and> (631.5 :: real) \<noteq> 0 - 200 * (0 / 800)"
  by (simp add: handler_defs font_defs string_defs finalize_defs)

text \<open>
  Claim C1, amended: for every complete field finalized with a stored viewport snapshot
  whose rendered width and height and native width and height are all nonzero, the
  emitted annotation has \<open>x = field.x * (nativeWidth / renderedWidth)\<close>,
  \<open>y = nativeHeight - field.y * (nativeHeight / renderedHeight)\<close> and passes page,
  width, height, type, content, font and font size through unchanged; for the viewport
  \<open>600 \<times> 800\<close> of a \<open>595 \<times> 842\<close> page and a name field placed at \<open>(100, 200)\<close>
  with content \<open>Jane Doe\<close> it emits \<open>x = 100 * (595 / 600)\<close> and \<open>y = 631.5\<close>
  (the witness).
\<close>

theorem finalize_emits_transformed_field:
  assumes "sigs \<in> set (requests (snd (finalizeDocument v sessionOk backendOk s)))"
    and "i < length (signatureFields s)"
    and "signatureFields s ! i = fld"
    and "f_canvasWidth fld = Some cw" and "cw \<noteq> 0"
    and "f_canvasHeight fld = Some ch" and "ch \<noteq> 0"
    and "f_pdfWidth fld = Some pw" and "pw \<noteq> 0"
    and "f_pdfHeight fld = Some ph" and "ph \<noteq> 0"
  shows "\<not> incomplete fld \<and> length sigs = length (signatureFields s) \<and>
         sigs ! i =
           \<lparr>a_page = f_page fld,
            a_x = f_x fld * (pw / cw),
            a_y = ph - f_y fld * (ph / ch),
            a_width = f_width fld, a_height = f_height fld, a_type = f_type fld,
            a_content = f_content fld, a_font = f_font fld, a_fontSize = f_fontSize fld\<rparr>"
proof -
  from requests_finalizeDocument [OF assms(1)]
  have sigs: "sigs = map (finalizeField v) (signatureFields s)"
    and complete: "filter incomplete (signatureFields s) = []"
    by simp_all
  from assms(2,3) have "fld \<in> set (signatureFields s)" by auto
  with complete have c: "\<not> incomplete fld" by (simp add: filter_empty_conv)
  have "finalizeField v fld =
           \<lparr>a_page = f_page fld,
            a_x = f_x fld * (pw / cw),
            a_y = ph - f_y fld * (ph / ch),
            a_width = f_width fld, a_height = f_height fld, a_type = f_type fld,
            a_content = f_content fld, a_font = f_font fld, a_fontSize = f_fontSize fld\<rparr>"
    using assms(4-11)
    by (simp add: finalizeField_def Let_def canvasWidthOf_def canvasHeightOf_def pdfWidthOf_def
        pdfHeightOf_def js_or_else_def)
  with sigs c assms(2,3) show ?thesis by simp
qed

theorem finalize_emits_transformed_field_witness:
  "requests (snd (finalizeDocument (viewport 600 800 595 842) True True
      (updateFieldContent ''1'' ''Jane Doe''
        (run_edits (viewport 600 800 595 842) initial_session [Place FName 100 200 ''1'' ''d'']))))
   = [[\<lparr>a_page = 1, a_x = 100 * (595 / 600), a_y = 631.5,
        a_width = 150, a_height = 30, a_type = FName,
        a_content = Some ''Jane Doe'', a_font = None, a_fontSize = Some 18\<rparr>]]"
proof -
  let ?v = "viewport 600 800 595 842"
  let ?s = "updateFieldContent ''1'' ''Jane Doe''
              (run_edits ?v initial_session [Place FName 100 200 ''1'' ''d''])"
  let ?fld = "\<lparr>f_id = ''1'', f_type = FName, f_x = 100, f_y = 200, f_page = 1,
        f_width = 150, f_height = 30, f_content = Some ''Jane Doe'',
        f_font = None, f_canvasWidth = Some 600, f_canvasHeight = Some 800,
        f_pdfWidth = Some 595, f_pdfHeight = Some 842, f_fontSize = Some 18\<rparr>"
  have flds: "signatureFields ?s = [?fld]"
    by (simp add: handler_defs font_defs string_defs)
  have inc: "\<not> incomplete ?fld"
    by (simp add: incomplete_def string_defs)
  have req: "requests (snd (finalizeDocument ?v True True ?s)) = [map (finalizeField ?v) (signatureFields ?s)]"
    unfolding flds finalizeDocument_def using inc by (simp add: Let_def flds)
  then have m: "map (finalizeField ?v) (signatureFields ?s) \<in> set (requests (snd (finalizeDocument ?v True True ?s)))"
    by simp
  have i: "0 < length (signatureFields ?s)" and n: "signatureFields ?s ! 0 = ?fld"
    by (simp_all add: flds)
  have z: "(600::real) \<noteq> 0" "(800::real) \<noteq> 0" "(595::real) \<noteq> 0" "(842::real) \<noteq> 0" by simp_all
  have "map (finalizeField ?v) (signatureFields ?s) ! 0 =
           \<lparr>a_page = f_page ?fld,
            a_x = f_x ?fld * (595 / 600),
            a_y = 842 - f_y ?fld * (842 / 800),
            a_width = f_width ?fld, a_height = f_height ?fld, a_type = f_type ?fld,
            a_content = f_content ?fld, a_font = f_font ?fld, a_fontSize = f_fontSize ?fld\<rparr>"
    using finalize_emits_transformed_field [OF m i n _ z(1) _ z(2) _ z(3) _ z(4)] by simp
  then have "map (finalizeField ?v) (signatureFields ?s) = [\<lparr>a_page = 1, a_x = 100 * (595 / 600), a_y = 631.5,
        a_width = 150, a_height = 30, a_type = FName,
        a_content = Some ''Jane Doe'', a_font = None, a_fontSize = Some 18\<rparr>]"
    by (simp add: flds)
  with req show ?thesis by simp
qed

section \<open>Finalization: rejection\<close>

lemma incomplete_filter: "(\<exists>fld \<in> set flds. incomplete fld) \<longleftrightarrow> length (filter incomplete flds) > 0"
  by (simp add: filter_empty_conv)

text \<open>
  Claim C5. Whenever there is no field, or some field has no content or a content that is
  empty after trimming, finalization shows one error message and does nothing else: no
  request is sent, the session (its fields included) is unchanged and the
  \<open>finalizing\<close> flag is never raised.
\<close>

theorem finalize_rejected:
  assumes "signatureFields s = [] \<or> (\<exists>fld \<in> set (signatureFields s). incomplete fld)"
  shows "fst (finalizeDocument v sessionOk backendOk s) = s \<and>
         (\<exists>msg. snd (finalizeDocument v sessionOk backendOk s) = [ToastError msg]) \<and>
         requests (snd (finalizeDocument v sessionOk backendOk s)) = [] \<and>
         SetFinalizing True \<notin> set (snd (finalizeDocument v sessionOk backendOk s))"
proof (cases "signatureFields s = []")
  case True
  then show ?thesis by (simp add: finalizeDocument_def)
next
  case False
  with assms have "length (filter incomplete (signatureFields s)) > 0"
    by (simp add: incomplete_filter)
  with False show ?thesis by (simp add: finalizeDocument_def)
qed

theorem finalize_rejected_witness:
  "finalizeDocument (viewport 600 800 595 842) True True
     (updateFieldContent ''1'' ''   ''
        (run_edits (viewport 600 800 595 842) initial_session [Place FText 100 200 ''1'' ''d'']))
   = (updateFieldContent ''1'' ''   ''
        (run_edits (viewport 600 800 595 842) initial_session [Place FText 100 200 ''1'' ''d'']),
      [ToastError ''Please complete all signature fields''])"
proof -
  let ?v = "viewport 600 800 595 842"
  let ?s = "updateFieldContent ''1'' ''   ''
              (run_edits ?v initial_session [Place FText 100 200 ''1'' ''d''])"
  have c: "map f_content (signatureFields ?s) = [Some []]"
    by (simp add: handler_defs font_defs string_defs)
  then have "\<exists>fld \<in> set (signatureFields ?s). incomplete fld"
    by (auto simp add: incomplete_def map_eq_Cons_conv)
  then have h: "signatureFields ?s = [] \<or> (\<exists>fld \<in> set (signatureFields ?s). incomplete fld)" ..
  from c have ne: "signatureFields ?s \<noteq> []" by auto
  from finalize_rejected [OF h, of ?v True True] ne show ?thesis
    by (auto simp add: finalizeDocument_def prod_eq_iff split: if_splits)
qed

section \<open>Finalization: the divisors\<close>

lemma fallback_chain:
  "d \<noteq> 0 \<Longrightarrow>
   js_or_else a (js_or_else b d) \<noteq> 0 \<and>
   (truthy a \<longrightarrow> Some (js_or_else a (js_or_else b d)) = a) \<and>
   (\<not> truthy a \<and> truthy b \<longrightarrow> Some (js_or_else a (js_or_else b d)) = b) \<and>
   (\<not> truthy a \<and> \<not> truthy b \<longrightarrow> js_or_else a (js_or_else b d) = d)"
  by (auto simp: js_or_else_def truthy_def split: option.splits)

text \<open>
  Claim C9. The four dimensions finalization uses for a field are never zero: a stored
  value that is missing or zero is replaced by the live measurement, and a live
  measurement that is missing or zero by \<open>595\<close> (widths) or \<open>842\<close> (heights); the
  emitted \<open>x\<close> and \<open>y\<close> are computed by dividing by these dimensions.
\<close>

theorem finalize_divisors_nonzero:
  "canvasWidthOf v fld \<noteq> 0 \<and> canvasHeightOf v fld \<noteq> 0 \<and>
   pdfWidthOf v fld \<noteq> 0 \<and> pdfHeightOf v fld \<noteq> 0 \<and>
   a_x (finalizeField v fld) = f_x fld * (pdfWidthOf v fld / canvasWidthOf v fld) \<and>
   a_y (finalizeField v fld) =
     pdfHeightOf v fld - f_y fld * (pdfHeightOf v fld / canvasHeightOf v fld) \<and>
   (truthy (f_canvasWidth fld) \<longrightarrow> Some (canvasWidthOf v fld) = f_canvasWidth fld) \<and>
   (\<not> truthy (f_canvasWidth fld) \<and> truthy (map_option b_width (canvasBounds v)) \<longrightarrow>
      Some (canvasWidthOf v fld) = map_option b_width (canvasBounds v)) \<and>
   (\<not> truthy (f_canvasWidth fld) \<and> \<not> truthy (map_option b_width (canvasBounds v)) \<longrightarrow>
      canvasWidthOf v fld = 595) \<and>
   (truthy (f_canvasHeight fld) \<longrightarrow> Some (canvasHeightOf v fld) = f_canvasHeight fld) \<and>
   (\<not> truthy (f_canvasHeight fld) \<and> truthy (map_option b_height (canvasBounds v)) \<longrightarrow>
      Some (canvasHeightOf v fld) = map_option b_height (canvasBounds v)) \<and>
   (\<not> truthy (f_canvasHeight fld) \<and> \<not> truthy (map_option b_height (canvasBounds v)) \<longrightarrow>
      canvasHeightOf v fld = 842) \<and>
   (truthy (f_pdfWidth fld) \<longrightarrow> Some (pdfWidthOf v fld) = f_pdfWidth fld) \<and>
   (\<not> truthy (f_pdfWidth fld) \<and> truthy (map_option p_width (pdfDimensions v)) \<longrightarrow>
      Some (pdfWidthOf v fld) = map_option p_width (pdfDimensions v)) \<and>
   (\<not> truthy (f_pdfWidth fld) \<and> \<not> truthy (map_option p_width (pdfDimensions v)) \<longrightarrow>
      pdfWidthOf v fld = 595) \<and>
   (truthy (f_pdfHeight fld) \<longrightarrow> Some (pdfHeightOf v fld) = f_pdfHeight fld) \<and>
   (\<not> truthy (f_pdfHeight fld) \<and> truthy (map_option p_height (pdfDimensions v)) \<longrightarrow>
      Some (pdfHeightOf v fld) = map_option p_height (pdfDimensions v)) \<and>
   (\<not> truthy (f_pdfHeight fld) \<and> \<not> truthy (map_option p_height (pdfDimensions v)) \<longrightarrow>
      pdfHeightOf v fld = 842)"
proof -
  have w: "(595 :: real) \<noteq> 0" and h: "(842 :: real) \<noteq> 0" by simp_all
  note cw = fallback_chain [OF w, of "f_canvasWidth fld" "map_option b_width (canvasBounds v)"]
  note ch = fallback_chain [OF h, of "f_canvasHeight fld" "map_option b_height (canvasBounds v)"]
  note pw = fallback_chain [OF w, of "f_pdfWidth fld" "map_option p_width (pdfDimensions v)"]
  note ph = fallback_chain [OF h, of "f_pdfHeight fld" "map_option p_height (pdfDimensions v)"]
  have xy: "a_x (finalizeField v fld) = f_x fld * (pdfWidthOf v fld / canvasWidthOf v fld) \<and>
   a_y (finalizeField v fld) =
     pdfHeightOf v fld - f_y fld * (pdfHeightOf v fld / canvasHeightOf v fld)"
    by (simp add: finalizeField_def Let_def)
  show ?thesis
    unfolding canvasWidthOf_def canvasHeightOf_def pdfWidthOf_def pdfHeightOf_def
    using cw ch pw ph xy [unfolded canvasWidthOf_def canvasHeightOf_def pdfWidthOf_def pdfHeightOf_def]
    by blast
qed


theorem finalize_divisors_nonzero_witness:
  "canvasWidthOf (viewport 600 800 595 842)
     \<lparr>f_id = ''1'', f_type = FName, f_x = 100, f_y = 200, f_page = 1,
       f_width = 150, f_height = 30, f_content = Some ''Jane Doe'', f_font = None,
       f_canvasWidth = Some 0, f_canvasHeight = None,
       f_pdfWidth = Some 0, f_pdfHeight = Some 0, f_fontSize = Some 18\<rparr> = 600 \<and>
   canvasHeightOf (unloaded 600 0)
     \<lparr>f_id = ''1'', f_type = FName, f_x = 100, f_y = 200, f_page = 1,
       f_width = 150, f_height = 30, f_content = Some ''Jane Doe'', f_font = None,
       f_canvasWidth = Some 0, f_canvasHeight = None,
       f_pdfWidth = Some 0, f_pdfHeight = Some 0, f_fontSize = Some 18\<rparr> = 842"
proof -
  let ?fld = "\<lparr>f_id = ''1'', f_type = FName, f_x = 100, f_y = 200, f_page = 1,
       f_width = 150, f_height = 30, f_content = Some ''Jane Doe'', f_font = None,
       f_canvasWidth = Some 0, f_canvasHeight = None,
       f_pdfWidth = Some 0, f_pdfHeight = Some 0, f_fontSize = Some (18::int)\<rparr>"
  have a: "\<not> truthy (f_canvasWidth ?fld) \<and>
           truthy (map_option b_width (canvasBounds (viewport 600 800 595 842)))"
    by (simp add: truthy_def viewport_def)
  have b: "\<not> truthy (f_canvasHeight ?fld) \<and>
           \<not> truthy (map_option b_height (canvasBounds (unloaded 600 0)))"
    by (simp add: truthy_def unloaded_def)
  from finalize_divisors_nonzero [of "viewport 600 800 595 842" ?fld] a
  have "Some (canvasWidthOf (viewport 600 800 595 842) ?fld)
          = map_option b_width (canvasBounds (viewport 600 800 595 842))"
    by blast
  then have w: "canvasWidthOf (viewport 600 800 595 842) ?fld = 600"
    by (simp add: viewport_def)
  from finalize_divisors_nonzero [of "unloaded 600 0" ?fld] b
  have h: "canvasHeightOf (unloaded 600 0) ?fld = 842"
    by blast
  from w h show ?thesis by simp
qed

section \<open>The transform on a canvas of size zero\<close>

lemma transform_unavailable:
  "canvasBounds v = None \<or> pdfDimensions v = None \<Longrightarrow>
   convertToAbsoluteCoordinates v px py =
     \<lparr>absoluteX = Fin px, absoluteY = Fin py, c_canvasWidth = 0, c_canvasHeight = 0,
      c_pdfWidth = 0, c_pdfHeight = 0\<rparr>"
  by (auto simp add: convertToAbsoluteCoordinates_def split: option.splits)

lemma transform_finite:
  "canvasBounds v = Some cb \<Longrightarrow> pdfDimensions v = Some pd \<Longrightarrow> b_width cb \<noteq> 0 \<Longrightarrow>
   b_height cb \<noteq> 0 \<Longrightarrow>
   absoluteX (convertToAbsoluteCoordinates v px py) = Fin (px * (p_width pd / b_width cb)) \<and>
   absoluteY (convertToAbsoluteCoordinates v px py)
     = Fin (p_height pd - py * (p_height pd / b_height cb))"
  by (simp add: convertToAbsoluteCoordinates_def Let_def)

text \<open>
  Claim C4 says that with a rendered width or height of zero the transform signals
  "not ready" instead of dividing by zero, and never returns NaN or an infinity. The
  source guards only against missing measurements (\<open>transform_unavailable\<close>). On a
  canvas that is measured with size \<open>0 \<times> 0\<close> it divides by zero: the point
  \<open>(0, 0)\<close> is converted to \<open>(NaN, NaN)\<close>, and the point \<open>(-130, -40)\<close>, which
  \<open>handlePdfClick\<close> passes for a text field clicked at the corner of such a canvas,
  to \<open>(-Infinity, Infinity)\<close>.
\<close>

theorem transform_zero_canvas_not_finite:
  "absoluteX (convertToAbsoluteCoordinates (viewport 0 0 595 842) 0 0) = NaN \<and>
   absoluteY (convertToAbsoluteCoordinates (viewport 0 0 595 842) 0 0) = NaN \<and>
   absoluteX (convertToAbsoluteCoordinates (viewport 0 0 595 842) (- 130) (- 40)) = NInf \<and>
   absoluteY (convertToAbsoluteCoordinates (viewport 0 0 595 842) (- 130) (- 40)) = PInf"
  by (simp add: viewport_def convertToAbsoluteCoordinates_def Let_def)

section \<open>Font size of a field with empty content\<close>

lemma resize_empty_content_uses_ten:
  "f_content fld = None \<or> f_content fld = Some [] \<Longrightarrow>
   f_fontSize (resizeField cb nw nh fld) =
     Some (calculateDynamicFontSize (f_width (resizeField cb nw nh fld))
            (f_height (resizeField cb nw nh fld)) (f_type fld) 10)"
  by (auto simp add: resizeField_def Let_def contentLengthOr10_def)

text \<open>
  Claim C7 says that the font size of a field with empty content is computed with the
  nominal length 10, on \<open>setContent\<close> and on resize. Resizing does
  (\<open>resize_empty_content_uses_ten\<close>); \<open>updateFieldContent\<close> passes the length
  \<open>0\<close>: a text field resized to \<open>60 \<times> 40\<close> whose content is set to one blank
  gets the empty content and the font size \<open>20\<close>, where the length 10 gives \<open>8\<close>.
\<close>

theorem set_content_empty_uses_length_zero:
  "signatureFields (updateFieldContent ''1'' '' ''
      (run_edits (viewport 600 800 595 842) initial_session
         [Place FText 100 200 ''1'' ''d'', Resize ''1'' 60 40]))
   = [\<lparr>f_id = ''1'', f_type = FText, f_x = 100, f_y = 200, f_page = 1,
       f_width = 60, f_height = 40, f_content = Some [], f_font = None,
       f_canvasWidth = Some 600, f_canvasHeight = Some 800,
       f_pdfWidth = Some 595, f_pdfHeight = Some 842, f_fontSize = Some 20\<rparr>] \<and>
   calculateDynamicFontSize 60 40 FText 0 = 20 \<and>
   calculateDynamicFontSize 60 40 FText 10 = 8"
  by (simp add: handler_defs font_defs string_defs)

section \<open>The rendering backend\<close>

lemma pages_fallbackDraw: "pages (fallbackDraw lib doc sg c) = pages doc"
  by (simp add: fallbackDraw_def Let_def)

lemma pages_processSignature: "pages (processSignature lib doc sg) = pages doc"
  by (simp add: processSignature_def Let_def pages_fallbackDraw split: option.splits)

lemma skipped_pages: "pages doc' = pages doc \<Longrightarrow> skipped doc' sg = skipped doc sg"
  by (simp add: skipped_def)

lemma fallbackDraw_append:
  "fallbackDraw lib doc sg c =
     doc\<lparr>drawn := drawn doc @ drawn (fallbackDraw lib \<lparr>pages = pages doc, drawn = []\<rparr> sg c)\<rparr>"
  by (simp add: fallbackDraw_def Let_def)

lemma processSignature_append:
  "processSignature lib doc sg =
     doc\<lparr>drawn := drawn doc @ drawn (processSignature lib \<lparr>pages = pages doc, drawn = []\<rparr> sg)\<rparr>"
proof (cases "skipped doc sg")
  case True
  then have "skipped \<lparr>pages = pages doc, drawn = []\<rparr> sg" by (simp add: skipped_def)
  with True show ?thesis by (simp add: processSignature_def)
next
  case False
  then have ns: "\<not> skipped \<lparr>pages = pages doc, drawn = []\<rparr> sg" by (simp add: skipped_def)
  from False obtain c where c: "a_content sg = Some c"
    by (auto simp add: skipped_def falsy_string_def split: option.splits)
  show ?thesis
    using False ns c fallbackDraw_append [of lib doc sg c]
    by (simp add: processSignature_def Let_def split: option.splits)
qed

lemma processSignatures_independent:
  "processSignatures lib doc sgs =
     doc\<lparr>drawn := drawn doc @
       concat (map (\<lambda>sg. drawn (processSignature lib \<lparr>pages = pages doc, drawn = []\<rparr> sg)) sgs)\<rparr>"
proof (induction sgs arbitrary: doc)
  case Nil
  show ?case by simp
next
  case (Cons sg sgs)
  have "processSignatures lib doc (sg # sgs) = processSignatures lib (processSignature lib doc sg) sgs"
    by simp
  also have "\<dots> = (processSignature lib doc sg)\<lparr>drawn := drawn (processSignature lib doc sg) @
       concat (map (\<lambda>sg'. drawn (processSignature lib \<lparr>pages = pages doc, drawn = []\<rparr> sg')) sgs)\<rparr>"
    using Cons.IH [of "processSignature lib doc sg"] by (simp add: pages_processSignature)
  also have "\<dots> = doc\<lparr>drawn := drawn doc @
       concat (map (\<lambda>sg'. drawn (processSignature lib \<lparr>pages = pages doc, drawn = []\<rparr> sg')) (sg # sgs))\<rparr>"
    by (subst (1 2) processSignature_append [of lib doc sg]) simp
  finally show ?case .
qed

lemma processSignature_skipped: "skipped doc sg \<Longrightarrow> processSignature lib doc sg = doc"
  by (simp add: processSignature_def)

lemma processSignature_fallback:
  "\<not> skipped doc sg \<Longrightarrow> a_content sg = Some c \<Longrightarrow> primaryThrows lib sg c \<Longrightarrow>
   processSignature lib doc sg = fallbackDraw lib doc sg c"
  by (auto simp add: processSignature_def primaryThrows_def Let_def split: option.splits)

lemma serve_success:
  "\<not> is_options req \<Longrightarrow> user_found req \<Longrightarrow> document_found req \<Longrightarrow> download_ok req \<Longrightarrow>
   loaded req = Some pgs \<Longrightarrow> save_ok req \<Longrightarrow> upload_ok req \<Longrightarrow>
   serve lib req = (\<lparr>status = 200, payload = SuccessJson\<rparr>,
                    drawn (processSignatures lib \<lparr>pages = pgs, drawn = []\<rparr> (signatures req)))"
  by (simp add: serve_def Let_def)

lemma serve_response_independent:
  "fst (serve lib (req\<lparr>signatures := sgs\<rparr>)) = fst (serve lib req)"
  by (simp add: serve_def Let_def split: option.splits)

text \<open>
  Claim C10. The backend processes each signature on its own: what the loop draws is
  the concatenation of what each signature draws alone on the same pages; a signature
  without content or with a page number outside \<open>1..pageCount\<close> leaves the document
  as it is; when the first attempt throws, the result is that of the fallback draw,
  which is in Times Roman Italic when the library can draw it; and when the steps around
  the loop succeed the response reports success whatever the signatures are: the
  response never depends on them.
\<close>

theorem backend_signatures_independent:
  "processSignatures lib doc sgs =
     doc\<lparr>drawn := drawn doc @
       concat (map (\<lambda>sg. drawn (processSignature lib \<lparr>pages = pages doc, drawn = []\<rparr> sg)) sgs)\<rparr> \<and>
   (skipped doc sg \<longrightarrow> processSignature lib doc sg = doc) \<and>
   (\<not> skipped doc sg \<and> a_content sg = Some c \<and> primaryThrows lib sg c \<longrightarrow>
      processSignature lib doc sg = fallbackDraw lib doc sg c) \<and>
   (embedFont_ok lib TimesRomanItalic \<and> drawText_ok lib TimesRomanItalic (single_line c) \<longrightarrow>
      map d_font (drawn (fallbackDraw lib \<lparr>pages = pages doc, drawn = []\<rparr> sg c)) = [TimesRomanItalic]) \<and>
   (\<not> is_options req \<and> user_found req \<and> document_found req \<and> download_ok req \<and>
    loaded req = Some pgs \<and> save_ok req \<and> upload_ok req \<longrightarrow>
      serve lib req = (\<lparr>status = 200, payload = SuccessJson\<rparr>,
                    drawn (processSignatures lib \<lparr>pages = pgs, drawn = []\<rparr> (signatures req)))) \<and>
   fst (serve lib (req\<lparr>signatures := sgs\<rparr>)) = fst (serve lib req)"
  using processSignatures_independent [of lib doc sgs] processSignature_skipped [of doc sg lib]
    processSignature_fallback [of doc sg c lib] serve_success [of req pgs lib]
    serve_response_independent [of lib sgs req]
  by (simp add: fallbackDraw_def Let_def)

theorem backend_signatures_independent_witness:
  "serve example_lib example_request =
     (\<lparr>status = 200, payload = SuccessJson\<rparr>,
      [\<lparr>d_page = 1, d_text = ''Bob'', d_x = 100, d_y = 700, d_size = 18, d_font = TimesRomanItalic\<rparr>,
       \<lparr>d_page = 1, d_text = ''Cy'', d_x = 100, d_y = 700, d_size = 18, d_font = Helvetica\<rparr>])"
proof -
  have h: "\<not> is_options example_request \<and> user_found example_request \<and>
           document_found example_request \<and> download_ok example_request \<and>
           loaded example_request = Some [\<lparr>p_width = 595, p_height = 842\<rparr>] \<and>
           save_ok example_request \<and> upload_ok example_request"
    by (simp add: example_request_def)
  have d: "drawn (processSignatures example_lib \<lparr>pages = [\<lparr>p_width = 595, p_height = 842\<rparr>], drawn = []\<rparr>
             (signatures example_request)) =
      [\<lparr>d_page = 1, d_text = ''Bob'', d_x = 100, d_y = 700, d_size = 18, d_font = TimesRomanItalic\<rparr>,
       \<lparr>d_page = 1, d_text = ''Cy'', d_x = 100, d_y = 700, d_size = 18, d_font = Helvetica\<rparr>]"
    by (simp add: backend_defs string_defs)
  from backend_signatures_independent [where lib = example_lib and req = example_request
      and pgs = "[\<lparr>p_width = 595, p_height = 842\<rparr>]"] h
  have "serve example_lib example_request = (\<lparr>status = 200, payload = SuccessJson\<rparr>,
                    drawn (processSignatures example_lib \<lparr>pages = [\<lparr>p_width = 595, p_height = 842\<rparr>], drawn = []\<rparr> (signatures example_request)))"
    by blast
  with d show ?thesis by simp
qed


end
